theory Spec2Isabelle
  imports Complex_Main "HOL-Library.Char_ord" "HOL-Library.List_Lexorder" "HOL-Library.Multiset"
begin

section \<open>Data model (models/Group.js, models/GroupMember.js, models/Message.js, models/User.js)\<close>

text \<open>
  The handlers are Express request handlers over the mongoose collections. The
  embedding makes the database an explicit \<open>store\<close> value that every handler takes
  and returns, together with the HTTP response it sends. An ObjectId is a natural
  number, a \<open>Date\<close> is the integer number of milliseconds since the epoch, and
  \<open>new Date()\<close> / \<open>Date.now\<close> is the argument \<open>now\<close> of the handler that reads the
  clock. A JavaScript string is a \<open>string\<close>, one \<open>char\<close> per code unit, so \<open>length\<close>
  is the source's \<open>.length\<close> on strings of code units below 256.
  \<open>populate\<close> and \<open>lean\<close> only change how a document is rendered in the response
  body and are left out: a response carries the stored documents themselves.
\<close>

type_synonym oid = nat
type_synonym date = int

datatype role = Admin | Moderator | Member

text \<open>The schema stores the role as one of the strings of its \<open>enum\<close>.\<close>

fun role_str :: "role \<Rightarrow> string" where
  "role_str Admin = ''admin''"
| "role_str Moderator = ''moderator''"
| "role_str Member = ''member''"

record groupMember =
  gm_user :: oid
  gm_group :: oid
  gm_role :: role
  joinedAt :: date
  isActive :: bool

datatype inviteStatus = Pending | Accepted | Rejected

record invite =
  inv_user :: oid
  invitedBy :: oid
  invitedAt :: date
  inv_status :: inviteStatus

record group =
  g_id :: oid
  g_name :: string
  description :: string
  createdBy :: "oid option"
  isPublic :: bool
  maxMembers :: nat
  invitedUsers :: "invite list"

record receipt =
  r_user :: oid
  readAt :: date

record message =
  m_id :: oid
  content :: string
  sender :: oid
  m_group :: oid
  messageType :: string
  readBy :: "receipt list"
  createdAt :: date

record user =
  u_id :: oid
  u_name :: string
  email :: string

text \<open>
  The collections in insertion order, and the counter the next \<open>_id\<close> is taken from.
\<close>

record store =
  users :: "user list"
  groups :: "group list"
  members :: "groupMember list"
  messages :: "message list"
  next_id :: oid

text \<open>
  What a handler sends: the status code, the \<open>message\<close> field and the \<open>data\<close> field
  of the JSON body.
\<close>

record pagination =
  currentPage :: int
  totalPages :: int
  totalMessages :: int
  hasNext :: bool
  hasPrev :: bool

datatype payload =
    NoData
  | MessageData message
  | MessagePage "message list" pagination
  | UnreadCount nat oid oid
  | MemberList nat "groupMember list"
  | InvitedUser oid string string
  | GroupData group nat "message list"

record response =
  status :: nat
  msg :: string
  payload :: payload

definition reply :: "nat \<Rightarrow> string \<Rightarrow> response" where
  "reply code text = \<lparr>status = code, msg = text, payload = NoData\<rparr>"

definition reply_data :: "nat \<Rightarrow> string \<Rightarrow> payload \<Rightarrow> response" where
  "reply_data code text d = \<lparr>status = code, msg = text, payload = d\<rparr>"

text \<open>
  The exceptions the handlers throw or receive from the driver. The \<open>catch\<close> blocks
  select on \<open>error.message.includes(...)\<close>; each thrown message is one constructor.
\<close>

datatype exn =
    EmptyContent
  | ContentTooLong
  | InvalidType
  | NotMember
  | GroupNotFound
  | DuplicateKey

fun exn_message :: "exn \<Rightarrow> string" where
  "exn_message EmptyContent = ''Message content cannot be empty''"
| "exn_message ContentTooLong = ''Message cannot exceed 1000 characters''"
| "exn_message InvalidType = ''Invalid message type''"
| "exn_message NotMember = ''You are not a member of this group''"
| "exn_message GroupNotFound = ''Group not found''"
| "exn_message DuplicateKey = ''E11000 duplicate key error''"

section \<open>Collection operations (mongoose)\<close>

text \<open>\<open>Model.findOne(q)\<close>: the first document that matches, or \<open>null\<close>.\<close>

definition findOne :: "('a \<Rightarrow> bool) \<Rightarrow> 'a list \<Rightarrow> 'a option" where
  "findOne q docs = find q docs"

text \<open>\<open>Model.countDocuments(q)\<close>.\<close>

definition countDocuments :: "('a \<Rightarrow> bool) \<Rightarrow> 'a list \<Rightarrow> nat" where
  "countDocuments q docs = length (filter q docs)"

text \<open>\<open>Model.deleteMany(q)\<close>.\<close>

definition deleteMany :: "('a \<Rightarrow> bool) \<Rightarrow> 'a list \<Rightarrow> 'a list" where
  "deleteMany q docs = filter (\<lambda>d. \<not> q d) docs"

text \<open>
  \<open>Model.findOneAndUpdate(q, u)\<close> and \<open>findByIdAndUpdate\<close>: the first document that
  matches is updated; nothing happens when none matches.
\<close>

fun findOneAndUpdate :: "('a \<Rightarrow> bool) \<Rightarrow> ('a \<Rightarrow> 'a) \<Rightarrow> 'a list \<Rightarrow> 'a list" where
  "findOneAndUpdate q u [] = []"
| "findOneAndUpdate q u (d # docs) =
     (if q d then u d # docs else d # findOneAndUpdate q u docs)"

text \<open>
  \<open>.sort(...)\<close> of a query: an insertion sort under the comparison the sort document
  gives. MongoDB leaves the order of documents with equal keys open; this one keeps
  their stored order.
\<close>

fun insert_by :: "('a \<Rightarrow> 'a \<Rightarrow> bool) \<Rightarrow> 'a \<Rightarrow> 'a list \<Rightarrow> 'a list" where
  "insert_by le x [] = [x]"
| "insert_by le x (y # ys) = (if le x y then x # y # ys else y # insert_by le x ys)"

definition sort_by :: "('a \<Rightarrow> 'a \<Rightarrow> bool) \<Rightarrow> 'a list \<Rightarrow> 'a list" where
  "sort_by le docs = foldr (insert_by le) docs []"

text \<open>
  \<open>GroupMember.create\<close>. The schema declares
  \<open>groupMemberSchema.index({ user: 1, group: 1 }, { unique: true })\<close>: the insert is
  refused with a duplicate-key error when a row with the same user and group is
  stored, whatever its other fields. \<open>joinedAt\<close> and \<open>isActive\<close> take their defaults,
  \<open>Date.now\<close> and \<open>true\<close>.
\<close>

definition GroupMember_create :: "store \<Rightarrow> oid \<Rightarrow> oid \<Rightarrow> role \<Rightarrow> date \<Rightarrow> exn + store" where
  "GroupMember_create st u g r now =
     (if list_ex (\<lambda>m. gm_user m = u \<and> gm_group m = g) (members st) then Inl DuplicateKey
      else Inr (st\<lparr>members := members st @
             [\<lparr>gm_user = u, gm_group = g, gm_role = r, joinedAt = now, isActive = True\<rparr>]\<rparr>))"

text \<open>\<open>Group.findById\<close>.\<close>

definition Group_findById :: "store \<Rightarrow> oid \<Rightarrow> group option" where
  "Group_findById st gid = findOne (\<lambda>g. g_id g = gid) (groups st)"

text \<open>\<open>Message.create\<close>: the new document gets a fresh \<open>_id\<close> and an empty \<open>readBy\<close>.\<close>

definition Message_create :: "store \<Rightarrow> string \<Rightarrow> oid \<Rightarrow> oid \<Rightarrow> string \<Rightarrow> date \<Rightarrow> message \<times> store" where
  "Message_create st c s g ty now =
     (let m = \<lparr>m_id = next_id st, content = c, sender = s, m_group = g, messageType = ty,
                readBy = [], createdAt = now\<rparr>
      in (m, st\<lparr>messages := messages st @ [m], next_id := Suc (next_id st)\<rparr>))"

section \<open>controllers/groupMemberController.js\<close>

text \<open>
  \<open>removeMember\<close>: the caller needs a row with role admin in the group (the query has
  no \<open>isActive\<close> condition); when the caller removes themself and the group counts
  exactly one active admin the request is refused; otherwise the target's row gets
  \<open>isActive = false\<close>.
\<close>

definition removeMember :: "store \<Rightarrow> oid \<Rightarrow> oid \<Rightarrow> oid \<Rightarrow> response \<times> store" where
  "removeMember st adminId groupId userId =
     (case findOne (\<lambda>m. gm_user m = adminId \<and> gm_group m = groupId \<and> gm_role m = Admin)
             (members st) of
        None \<Rightarrow> (reply 403 ''Only group admin can remove members'', st)
      | Some adminMembership \<Rightarrow>
          if userId = adminId \<and>
             countDocuments (\<lambda>m. gm_group m = groupId \<and> gm_role m = Admin \<and> isActive m)
               (members st) = 1
          then (reply 400
                 ''Cannot remove yourself as the only admin. Transfer admin role first or delete group.'',
                st)
          else (reply 200 ''Member removed successfully'',
                st\<lparr>members := findOneAndUpdate
                        (\<lambda>m. gm_user m = userId \<and> gm_group m = groupId)
                        (\<lambda>m. m\<lparr>isActive := False\<rparr>) (members st)\<rparr>))"


text \<open>\<open>group.save()\<close>: the stored document with the same \<open>_id\<close> is replaced.\<close>

definition Group_save :: "store \<Rightarrow> group \<Rightarrow> store" where
  "Group_save st g = st\<lparr>groups := findOneAndUpdate (\<lambda>x. g_id x = g_id g) (\<lambda>_. g) (groups st)\<rparr>"


text \<open>
  \<open>acceptInvitation\<close>: \<open>GroupMember.create\<close> runs before the invitation is marked
  accepted; when it throws, the \<open>catch\<close> block answers 500 and nothing was written.
\<close>

definition acceptInvitation :: "store \<Rightarrow> oid \<Rightarrow> oid \<Rightarrow> date \<Rightarrow> response \<times> store" where
  "acceptInvitation st userId groupId now =
     (case Group_findById st groupId of
        None \<Rightarrow> (reply 404 ''Group not found'', st)
      | Some grp \<Rightarrow>
     (case find (\<lambda>i. inv_user i = userId \<and> inv_status i = Pending) (invitedUsers grp) of
        None \<Rightarrow> (reply 404 ''No pending invitation found'', st)
      | Some invitation \<Rightarrow>
     (case GroupMember_create st userId groupId Member now of
        Inl e \<Rightarrow> (reply 500 ''Error accepting invitation'', st)
      | Inr st1 \<Rightarrow>
          (reply 200 ''Group invitation accepted successfully'',
           Group_save st1 (grp\<lparr>invitedUsers := findOneAndUpdate
             (\<lambda>i. inv_user i = userId \<and> inv_status i = Pending)
             (\<lambda>i. i\<lparr>inv_status := Accepted\<rparr>) (invitedUsers grp)\<rparr>)))))"

text \<open>
  The order of \<open>.sort({ role: -1, joinedAt: 1 })\<close>: the role strings descending, and
  among equal roles the join date ascending. Strings compare code unit by code unit.
\<close>

definition members_order :: "groupMember \<Rightarrow> groupMember \<Rightarrow> bool" where
  "members_order a b =
     (role_str (gm_role b) < role_str (gm_role a) \<or>
      (role_str (gm_role a) = role_str (gm_role b) \<and> joinedAt a \<le> joinedAt b))"

definition getGroupMembers :: "store \<Rightarrow> oid \<Rightarrow> oid \<Rightarrow> response" where
  "getGroupMembers st userId groupId =
     (case findOne (\<lambda>m. gm_user m = userId \<and> gm_group m = groupId \<and> isActive m) (members st) of
        None \<Rightarrow> reply 403 ''You are not a member of this group''
      | Some userMembership \<Rightarrow>
          (let ms = sort_by members_order
                      (filter (\<lambda>m. gm_group m = groupId \<and> isActive m) (members st))
           in reply_data 200 [] (MemberList (length ms) ms)))"

section \<open>controllers/messageController.js\<close>

definition validateGroupMembership :: "store \<Rightarrow> oid \<Rightarrow> oid \<Rightarrow> exn + groupMember" where
  "validateGroupMembership st userId groupId =
     (case findOne (\<lambda>m. gm_user m = userId \<and> gm_group m = groupId \<and> isActive m) (members st) of
        None \<Rightarrow> Inl NotMember
      | Some membership \<Rightarrow> Inr membership)"

text \<open>
  \<open>String.prototype.trim\<close> on code units below 256: tab, line feed, vertical tab,
  form feed, carriage return, space and no-break space are stripped from both ends.
\<close>

definition is_ws :: "char \<Rightarrow> bool" where
  "is_ws c = (of_char c \<in> {9, 10, 11, 12, 13, 32, 160 :: nat})"

definition trim :: "string \<Rightarrow> string" where
  "trim s = rev (dropWhile is_ws (rev (dropWhile is_ws s)))"

text \<open>\<open>!content\<close> holds of the empty string.\<close>

definition validateMessageContent :: "string \<Rightarrow> exn + string" where
  "validateMessageContent c =
     (if c = [] \<or> length (trim c) = 0 then Inl EmptyContent
      else if length c > 1000 then Inl ContentTooLong
      else Inr (trim c))"

definition validTypes :: "string list" where
  "validTypes = [''text'', ''image'', ''file'', ''system'']"

definition validateMessageType :: "string \<Rightarrow> exn + string" where
  "validateMessageType ty = (if ty \<in> set validTypes then Inr ty else Inl InvalidType)"

text \<open>The orders of \<open>.sort({ createdAt: -1 })\<close> and \<open>.sort({ createdAt: 1 })\<close>.\<close>

definition newest_first :: "message \<Rightarrow> message \<Rightarrow> bool" where
  "newest_first a b = (createdAt b \<le> createdAt a)"

definition oldest_first :: "message \<Rightarrow> message \<Rightarrow> bool" where
  "oldest_first a b = (createdAt a \<le> createdAt b)"

text \<open>
  \<open>Math.ceil(totalCount / limit)\<close>, the division taken in exact arithmetic (on counts
  below \<open>2 ^ 53\<close> and limits up to 100 the floating-point quotient has the same
  ceiling).
\<close>

definition ceil_quot :: "int \<Rightarrow> int \<Rightarrow> int" where
  "ceil_quot totalCount limit = \<lceil>real_of_int totalCount / real_of_int limit\<rceil>"

definition getMessagesWithPagination :: "store \<Rightarrow> oid \<Rightarrow> int \<Rightarrow> int \<Rightarrow> message list \<times> pagination" where
  "getMessagesWithPagination st groupId page limit =
     (let skip = (page - 1) * limit;
          found = take (nat limit) (drop (nat skip)
                    (sort_by newest_first (filter (\<lambda>m. m_group m = groupId) (messages st))));
          totalCount = int (countDocuments (\<lambda>m. m_group m = groupId) (messages st));
          chronologicalMessages = rev found
      in (chronologicalMessages,
          \<lparr>currentPage = page,
           totalPages = ceil_quot totalCount limit,
           totalMessages = totalCount,
           hasNext = (page < ceil_quot totalCount limit),
           hasPrev = (page > 1)\<rparr>))"

text \<open>
  \<open>$addToSet\<close> appends the value unless an equal element is in the array; the value
  \<open>markMessageAsRead\<close> adds is the pair of the user and the current time.
\<close>

definition addToSet :: "'a \<Rightarrow> 'a list \<Rightarrow> 'a list" where
  "addToSet x xs = (if x \<in> set xs then xs else xs @ [x])"

definition markMessageAsRead :: "store \<Rightarrow> oid \<Rightarrow> oid \<Rightarrow> date \<Rightarrow> store" where
  "markMessageAsRead st messageId userId now =
     st\<lparr>messages := findOneAndUpdate (\<lambda>m. m_id m = messageId)
           (\<lambda>m. m\<lparr>readBy := addToSet \<lparr>r_user = userId, readAt = now\<rparr> (readBy m)\<rparr>)
           (messages st)\<rparr>"

text \<open>The \<open>catch\<close> block of \<open>sendMessage\<close>.\<close>

fun sendMessage_catch :: "exn \<Rightarrow> response" where
  "sendMessage_catch EmptyContent = reply 400 (exn_message EmptyContent)"
| "sendMessage_catch ContentTooLong = reply 400 (exn_message ContentTooLong)"
| "sendMessage_catch InvalidType = reply 400 (exn_message InvalidType)"
| "sendMessage_catch NotMember = reply 403 (exn_message NotMember)"
| "sendMessage_catch e = reply 500 ''Error sending message''"

text \<open>
  \<open>sendMessage\<close>; \<open>messageType\<close> is \<open>None\<close> when the body has no such field, and then
  defaults to \<open>text\<close>.
\<close>

definition sendMessage :: "store \<Rightarrow> oid \<Rightarrow> oid \<Rightarrow> string \<Rightarrow> string option \<Rightarrow> date \<Rightarrow> response \<times> store" where
  "sendMessage st userId groupId c ty now =
     (case validateMessageContent c of
        Inl e \<Rightarrow> (sendMessage_catch e, st)
      | Inr validatedContent \<Rightarrow>
     (case validateMessageType (case ty of None \<Rightarrow> ''text'' | Some t \<Rightarrow> t) of
        Inl e \<Rightarrow> (sendMessage_catch e, st)
      | Inr validatedMessageType \<Rightarrow>
     (case validateGroupMembership st userId groupId of
        Inl e \<Rightarrow> (sendMessage_catch e, st)
      | Inr membership \<Rightarrow>
     (case Group_findById st groupId of
        None \<Rightarrow> (reply 404 ''Group not found'', st)
      | Some grp \<Rightarrow>
          (let (m, st1) = Message_create st validatedContent userId groupId
                            validatedMessageType now;
               st2 = markMessageAsRead st1 (m_id m) userId now
           in (reply_data 201 ''Message sent successfully''
                 (MessageData (m\<lparr>readBy := [\<lparr>r_user = userId, readAt = now\<rparr>]\<rparr>)),
               st2))))))"

text \<open>
  \<open>getGroupMessages\<close>. A query parameter is \<open>None\<close> when \<open>parseInt\<close> gives \<open>NaN\<close>;
  \<open>parseInt(...) || 1\<close> replaces \<open>NaN\<close> and 0 by the default.
\<close>

definition or_default :: "int option \<Rightarrow> int \<Rightarrow> int" where
  "or_default q d = (case q of None \<Rightarrow> d | Some n \<Rightarrow> if n = 0 then d else n)"

definition getGroupMessages :: "store \<Rightarrow> oid \<Rightarrow> oid \<Rightarrow> int option \<Rightarrow> int option \<Rightarrow> date \<Rightarrow> response \<times> store" where
  "getGroupMessages st userId groupId qpage qlimit now =
     (let page = or_default qpage 1; limit = or_default qlimit 50
      in if page < 1 \<or> limit < 1 \<or> limit > 100
         then (reply 400
                 ''Invalid pagination parameters. Page must be >= 1, limit between 1-100'', st)
         else
           (case validateGroupMembership st userId groupId of
              Inl e \<Rightarrow> (reply 403 (exn_message e), st)
            | Inr membership \<Rightarrow>
           (case Group_findById st groupId of
              None \<Rightarrow> (reply 404 ''Group not found'', st)
            | Some grp \<Rightarrow>
                (let (msgs, pg) = getMessagesWithPagination st groupId page limit;
                     st1 = foldl (\<lambda>s m. markMessageAsRead s (m_id m) userId now) st msgs
                 in (reply_data 200 [] (MessagePage msgs pg), st1)))))"

text \<open>
  \<open>getUnreadMessageCount\<close>. The condition \<open>'readBy.user': { $ne: userId }\<close> holds of a
  message when no element of its \<open>readBy\<close> array has that user.
\<close>

definition getUnreadMessageCount :: "store \<Rightarrow> oid \<Rightarrow> oid \<Rightarrow> response" where
  "getUnreadMessageCount st userId groupId =
     (case validateGroupMembership st userId groupId of
        Inl e \<Rightarrow> reply 403 (exn_message e)
      | Inr membership \<Rightarrow>
          reply_data 200 []
            (UnreadCount
               (countDocuments
                  (\<lambda>m. m_group m = groupId \<and>
                       \<not> list_ex (\<lambda>r. r_user r = userId) (readBy m) \<and>
                       sender m \<noteq> userId)
                  (messages st))
               groupId userId))"

section \<open>controllers/groupController.js\<close>

text \<open>\<open>Group.create\<close>: the new document gets a fresh \<open>_id\<close> and no invitations.\<close>

definition Group_create :: "store \<Rightarrow> string \<Rightarrow> string \<Rightarrow> bool \<Rightarrow> nat \<Rightarrow> oid option \<Rightarrow> group \<times> store" where
  "Group_create st n d pub cap creator =
     (let g = \<lparr>g_id = next_id st, g_name = n, description = d, createdBy = creator,
                isPublic = pub, maxMembers = cap, invitedUsers = []\<rparr>
      in (g, st\<lparr>groups := groups st @ [g], next_id := Suc (next_id st)\<rparr>))"

text \<open>
  \<open>getGroupData\<close> with \<open>getGroupWithMemberCount\<close>: the group, the number of its active
  memberships and its first 50 messages, oldest first.
\<close>

definition getGroupData :: "store \<Rightarrow> oid \<Rightarrow> exn + payload" where
  "getGroupData st groupId =
     (case Group_findById st groupId of
        None \<Rightarrow> Inl GroupNotFound
      | Some g \<Rightarrow>
          Inr (GroupData g
                 (countDocuments (\<lambda>m. gm_group m = groupId \<and> isActive m) (members st))
                 (take 50 (sort_by oldest_first
                    (filter (\<lambda>m. m_group m = groupId) (messages st))))))"

text \<open>
  \<open>getMainChat\<close>: find or create the group named Main Chat, then create a membership
  with role member when the query for the user's row in it (which has no
  \<open>isActive\<close> condition) finds none.
\<close>

definition getMainChat :: "store \<Rightarrow> oid \<Rightarrow> date \<Rightarrow> response \<times> store" where
  "getMainChat st userId now =
     (let (mainChat, st1) =
            (case findOne (\<lambda>g. g_name g = ''Main Chat'') (groups st) of
               Some g \<Rightarrow> (g, st)
             | None \<Rightarrow> Group_create st ''Main Chat'' ''Welcome to the main chat room!''
                         True 1000 (Some userId))
      in case (case findOne (\<lambda>m. gm_user m = userId \<and> gm_group m = g_id mainChat)
                      (members st1) of
                 Some existingMembership \<Rightarrow> Inr st1
               | None \<Rightarrow> GroupMember_create st1 userId (g_id mainChat) Member now) of
           Inl e \<Rightarrow> (reply 500 ''Error loading main chat'', st1)
         | Inr st2 \<Rightarrow>
             (case getGroupData st2 (g_id mainChat) of
                Inl e \<Rightarrow> (reply 500 ''Error loading main chat'', st2)
              | Inr groupData \<Rightarrow> (reply_data 200 [] groupData, st2)))"

text \<open>\<open>Group.findByIdAndDelete\<close>: the first document with the id is removed.\<close>

fun findOneAndDelete :: "('a \<Rightarrow> bool) \<Rightarrow> 'a list \<Rightarrow> 'a list" where
  "findOneAndDelete q [] = []"
| "findOneAndDelete q (d # docs) = (if q d then docs else d # findOneAndDelete q docs)"

text \<open>
  \<open>deleteGroup\<close>: the three deletions of \<open>Promise.all\<close> act on three different
  collections.
\<close>

definition deleteGroup :: "store \<Rightarrow> oid \<Rightarrow> oid \<Rightarrow> response \<times> store" where
  "deleteGroup st userId groupId =
     (case Group_findById st groupId of
        None \<Rightarrow> (reply 404 ''Group not found'', st)
      | Some grp \<Rightarrow>
     (case findOne (\<lambda>m. gm_user m = userId \<and> gm_group m = groupId \<and> gm_role m = Admin)
             (members st) of
        None \<Rightarrow> (reply 403 ''Only group admin can delete the group'', st)
      | Some adminMembership \<Rightarrow>
          if g_name grp = ''Main Chat''
          then (reply 400 ''Cannot delete the Main Chat group'', st)
          else (reply 200 ''Group deleted successfully'',
                st\<lparr>messages := deleteMany (\<lambda>m. m_group m = groupId) (messages st),
                   members := deleteMany (\<lambda>m. gm_group m = groupId) (members st),
                   groups := findOneAndDelete (\<lambda>g. g_id g = groupId) (groups st)\<rparr>)))"

section \<open>Example stores\<close>

text \<open>
  Three users, Ann (1), Bob (2) and Cy (3), and Eve (5) who is in no group. The group
  General (10) was created by Ann, its admin; Bob is a member; Cy was removed from it
  and has a pending invitation to it. Ann wrote its three messages. Ann is also the
  admin of Main Chat (11), from which Cy was removed.
\<close>

definition demo :: store where
  "demo =
     \<lparr>users =
        [\<lparr>u_id = 1, u_name = ''Ann'', email = ''ann@x.io''\<rparr>,
         \<lparr>u_id = 2, u_name = ''Bob'', email = ''bob@x.io''\<rparr>,
         \<lparr>u_id = 3, u_name = ''Cy'', email = ''cy@x.io''\<rparr>,
         \<lparr>u_id = 5, u_name = ''Eve'', email = ''eve@x.io''\<rparr>],
      groups =
        [\<lparr>g_id = 10, g_name = ''General'', description = [], createdBy = Some 1,
          isPublic = False, maxMembers = 50,
          invitedUsers = [\<lparr>inv_user = 3, invitedBy = 1, invitedAt = 250, inv_status = Pending\<rparr>]\<rparr>,
         \<lparr>g_id = 11, g_name = ''Main Chat'', description = [], createdBy = Some 1,
          isPublic = True, maxMembers = 1000, invitedUsers = []\<rparr>],
      members =
        [\<lparr>gm_user = 1, gm_group = 10, gm_role = Admin, joinedAt = 100, isActive = True\<rparr>,
         \<lparr>gm_user = 2, gm_group = 10, gm_role = Member, joinedAt = 200, isActive = True\<rparr>,
         \<lparr>gm_user = 3, gm_group = 10, gm_role = Member, joinedAt = 300, isActive = False\<rparr>,
         \<lparr>gm_user = 1, gm_group = 11, gm_role = Admin, joinedAt = 100, isActive = True\<rparr>,
         \<lparr>gm_user = 3, gm_group = 11, gm_role = Member, joinedAt = 300, isActive = False\<rparr>],
      messages =
        [\<lparr>m_id = 21, content = ''one'', sender = 1, m_group = 10, messageType = ''text'',
          readBy = [], createdAt = 1000\<rparr>,
         \<lparr>m_id = 22, content = ''two'', sender = 1, m_group = 10, messageType = ''text'',
          readBy = [], createdAt = 2000\<rparr>,
         \<lparr>m_id = 23, content = ''three'', sender = 1, m_group = 10, messageType = ''text'',
          readBy = [], createdAt = 3000\<rparr>],
      next_id = 100\<rparr>"


section \<open>Facts about the collection operations\<close>






lemma findOne_None_iff: "findOne q docs = None \<longleftrightarrow> \<not> list_ex q docs"
  by (auto simp add: findOne_def find_None_iff list_ex_iff)

lemma findOne_Some_ex: "list_ex q docs \<Longrightarrow> \<exists>d. findOne q docs = Some d"
  using findOne_None_iff [of q docs] by (cases "findOne q docs") auto

lemma map_findOneAndUpdate:
  "(\<And>d. f (u d) = f d) \<Longrightarrow> map f (findOneAndUpdate q u docs) = map f docs"
  by (induction docs) auto

lemma find_findOneAndUpdate:
  "find q docs = Some d \<Longrightarrow> q (u d) \<Longrightarrow> find q (findOneAndUpdate q u docs) = Some (u d)"
  by (induction docs) (auto split: if_splits)

section \<open>Facts about sorting\<close>

lemma mset_insert_by: "mset (insert_by le x ys) = add_mset x (mset ys)"
  by (induction ys) auto

lemma mset_sort_by: "mset (sort_by le xs) = mset xs"
  by (induction xs) (auto simp: sort_by_def mset_insert_by)

lemma set_insert_by: "set (insert_by le x ys) = insert x (set ys)"
  using mset_insert_by [of le x ys] by (metis set_mset_mset set_mset_add_mset_insert)

lemma length_sort_by: "length (sort_by le xs) = length xs"
  using mset_sort_by [of le xs] by (metis size_mset)

lemma sorted_insert_by:
  assumes tot: "\<And>a b. le a b \<or> le b a" and tr: "\<And>a b c. le a b \<Longrightarrow> le b c \<Longrightarrow> le a c"
  shows "sorted_wrt le ys \<Longrightarrow> sorted_wrt le (insert_by le x ys)"
proof (induction ys)
  case Nil
  then show ?case by simp
next
  case (Cons y ys)
  show ?case
  proof (cases "le x y")
    case True
    with Cons.prems tr show ?thesis by auto
  next
    case False
    with tot have "le y x" by blast
    with Cons False show ?thesis by (auto simp: set_insert_by)
  qed
qed

lemma sorted_sort_by:
  assumes tot: "\<And>a b. le a b \<or> le b a" and tr: "\<And>a b c. le a b \<Longrightarrow> le b c \<Longrightarrow> le a c"
  shows "sorted_wrt le (sort_by le xs)"
proof (induction xs)
  case Nil
  then show ?case by (simp add: sort_by_def)
next
  case (Cons x xs)
  have "sort_by le (x # xs) = insert_by le x (sort_by le xs)" by (simp add: sort_by_def)
  with Cons sorted_insert_by [OF tot tr] show ?case by simp
qed

lemma sorted_newest_first: "sorted_wrt newest_first (sort_by newest_first xs)"
  by (rule sorted_sort_by) (auto simp: newest_first_def)

lemma chronological_page:
  assumes "sorted_wrt newest_first xs"
  shows "sorted (map createdAt (rev (take k (drop s xs))))"
proof -
  from assms have "sorted_wrt newest_first (take k (drop s xs))"
    by (simp add: sorted_wrt_take sorted_wrt_drop)
  then have "sorted_wrt (\<lambda>a b. newest_first b a) (rev (take k (drop s xs)))"
    by (simp add: sorted_wrt_rev)
  then show ?thesis by (simp add: sorted_map newest_first_def)
qed

section \<open>Removal of members and the last admin\<close>




section \<open>Read receipts\<close>

text \<open>
  C2 (the code at the failing input). Bob's receipt for message 21 is added at time
  5000 and again at time 6000. \<open>$addToSet\<close> compares the whole element, user and
  \<open>readAt\<close>, so the second call appends a second receipt of Bob's.
\<close>

theorem markMessageAsRead_twice_two_receipts:
  "map readBy (filter (\<lambda>m. m_id m = 21)
     (messages (markMessageAsRead (markMessageAsRead demo 21 2 5000) 21 2 6000)))
   = [[\<lparr>r_user = 2, readAt = 5000\<rparr>, \<lparr>r_user = 2, readAt = 6000\<rparr>]]"
  by (simp add: demo_def markMessageAsRead_def addToSet_def)

theorem markMessageAsRead_twice_two_receipts_witness:
  "length (filter (\<lambda>r. r_user r = 2) (concat (map readBy (filter (\<lambda>m. m_id m = 21)
     (messages (markMessageAsRead (markMessageAsRead demo 21 2 5000) 21 2 6000)))))) = 2"
  using markMessageAsRead_twice_two_receipts by simp

section \<open>Member listing\<close>

text \<open>
  For a caller with an active membership the listing is a permutation of the group's
  active memberships, in the order of the sort document.
\<close>

lemma sorted_members_order: "sorted_wrt members_order (sort_by members_order xs)"
proof (rule sorted_sort_by)
  show "members_order a b \<or> members_order b a" for a b
    by (auto simp: members_order_def)
  show "members_order a b \<Longrightarrow> members_order b c \<Longrightarrow> members_order a c" for a b c
    by (auto simp: members_order_def)
qed

lemma getGroupMembers_lists_active_rows:
  assumes "list_ex (\<lambda>m. gm_user m = u \<and> gm_group m = g \<and> isActive m) (members st)"
  shows "\<exists>ms. getGroupMembers st u g = reply_data 200 [] (MemberList (length ms) ms)
           \<and> mset ms = mset (filter (\<lambda>m. gm_group m = g \<and> isActive m) (members st))
           \<and> sorted_wrt members_order ms"
proof -
  from assms obtain um where
    "findOne (\<lambda>m. gm_user m = u \<and> gm_group m = g \<and> isActive m) (members st) = Some um"
    using findOne_Some_ex by fastforce
  then have "getGroupMembers st u g =
      reply_data 200 []
        (MemberList
           (length (sort_by members_order (filter (\<lambda>m. gm_group m = g \<and> isActive m) (members st))))
           (sort_by members_order (filter (\<lambda>m. gm_group m = g \<and> isActive m) (members st))))"
    by (simp add: getGroupMembers_def Let_def)
  then show ?thesis using mset_sort_by sorted_members_order by blast
qed

text \<open>
  C6 (the code at the failing input). General has the active memberships of Ann, its
  admin, who joined at 100, and of Bob, a member, who joined at 200. The listing
  sorts the role strings in descending order, and \<open>member\<close> is greater than \<open>admin\<close>:
  Bob comes first and the admin last.
\<close>

theorem getGroupMembers_admin_last:
  "status (getGroupMembers demo 2 10) = 200
   \<and> payload (getGroupMembers demo 2 10) =
       MemberList 2
         [\<lparr>gm_user = 2, gm_group = 10, gm_role = Member, joinedAt = 200, isActive = True\<rparr>,
          \<lparr>gm_user = 1, gm_group = 10, gm_role = Admin, joinedAt = 100, isActive = True\<rparr>]"
  by (simp add: demo_def getGroupMembers_def findOne_def sort_by_def members_order_def
      reply_data_def numeral_2_eq_2)

theorem getGroupMembers_admin_last_witness:
  "payload (getGroupMembers demo 2 10) \<noteq>
     MemberList 2
       [\<lparr>gm_user = 1, gm_group = 10, gm_role = Admin, joinedAt = 100, isActive = True\<rparr>,
        \<lparr>gm_user = 2, gm_group = 10, gm_role = Member, joinedAt = 200, isActive = True\<rparr>]"
  using getGroupMembers_admin_last by simp

section \<open>Deleting a group\<close>

text \<open>
  C9. \<open>deleteGroup\<close> on a group named Main Chat answers 400 or 403 and leaves the
  store as it was. When \<open>deleteGroup\<close> succeeds, the messages and memberships that
  remain are those of the other groups, so none refers to the deleted id; and from
  then on \<open>getGroupMessages\<close> and \<open>getGroupMembers\<close> for that id answer every caller
  with an error response that carries no data (the caller is not a member).
\<close>

theorem deleteGroup_main_chat_and_cascade:
  "(\<forall>grp. Group_findById st g = Some grp \<and> g_name grp = ''Main Chat''
      \<longrightarrow> status (fst (deleteGroup st u g)) \<in> {400, 403} \<and> snd (deleteGroup st u g) = st)
   \<and> (status (fst (deleteGroup st u g)) = 200
      \<longrightarrow> messages (snd (deleteGroup st u g)) = filter (\<lambda>m. m_group m \<noteq> g) (messages st)
        \<and> members (snd (deleteGroup st u g)) = filter (\<lambda>m. gm_group m \<noteq> g) (members st)
        \<and> \<not> list_ex (\<lambda>m. m_group m = g) (messages (snd (deleteGroup st u g)))
        \<and> \<not> list_ex (\<lambda>m. gm_group m = g) (members (snd (deleteGroup st u g)))
        \<and> (\<forall>caller qpage qlimit now.
              payload (fst (getGroupMessages (snd (deleteGroup st u g)) caller g qpage qlimit now))
                = NoData
              \<and> status (fst (getGroupMessages (snd (deleteGroup st u g)) caller g qpage qlimit now))
                  \<in> {400, 403}
              \<and> getGroupMembers (snd (deleteGroup st u g)) caller g
                  = reply 403 ''You are not a member of this group''))"
proof -
  have main: "status (fst (deleteGroup st u g)) \<in> {400, 403} \<and> snd (deleteGroup st u g) = st"
    if "Group_findById st g = Some grp \<and> g_name grp = ''Main Chat''" for grp
    using that by (simp add: deleteGroup_def reply_def split: option.splits)
  let ?st' = "snd (deleteGroup st u g)"
  have cascade: "messages ?st' = filter (\<lambda>m. m_group m \<noteq> g) (messages st)
        \<and> members ?st' = filter (\<lambda>m. gm_group m \<noteq> g) (members st)
        \<and> \<not> list_ex (\<lambda>m. m_group m = g) (messages ?st')
        \<and> \<not> list_ex (\<lambda>m. gm_group m = g) (members ?st')
        \<and> (\<forall>caller qpage qlimit now.
              payload (fst (getGroupMessages ?st' caller g qpage qlimit now)) = NoData
              \<and> status (fst (getGroupMessages ?st' caller g qpage qlimit now)) \<in> {400, 403}
              \<and> getGroupMembers ?st' caller g = reply 403 ''You are not a member of this group'')"
    if ok: "status (fst (deleteGroup st u g)) = 200"
  proof -
    from ok have msgs: "messages ?st' = filter (\<lambda>m. m_group m \<noteq> g) (messages st)"
      by (simp add: deleteGroup_def reply_def deleteMany_def split: option.splits if_splits)
    from ok have mems: "members ?st' = filter (\<lambda>m. gm_group m \<noteq> g) (members st)"
      by (simp add: deleteGroup_def reply_def deleteMany_def split: option.splits if_splits)
    from msgs have nomsg: "\<not> list_ex (\<lambda>m. m_group m = g) (messages ?st')"
      by (simp add: list_ex_iff)
    from mems have nomem: "\<not> list_ex (\<lambda>m. gm_group m = g) (members ?st')"
      by (simp add: list_ex_iff)
    have gone: "payload (fst (getGroupMessages ?st' caller g qpage qlimit now)) = NoData
              \<and> status (fst (getGroupMessages ?st' caller g qpage qlimit now)) \<in> {400, 403}
              \<and> getGroupMembers ?st' caller g = reply 403 ''You are not a member of this group''"
      for caller qpage qlimit now
    proof -
      from nomem have none:
        "findOne (\<lambda>m. gm_user m = caller \<and> gm_group m = g \<and> isActive m) (members ?st') = None"
        by (auto simp: findOne_None_iff list_ex_iff)
      then have vm: "validateGroupMembership ?st' caller g = Inl NotMember"
        by (simp add: validateGroupMembership_def)
      from vm have "payload (fst (getGroupMessages ?st' caller g qpage qlimit now)) = NoData"
        by (simp add: getGroupMessages_def reply_def Let_def)
      moreover from vm
      have "status (fst (getGroupMessages ?st' caller g qpage qlimit now)) \<in> {400, 403}"
        by (simp add: getGroupMessages_def reply_def Let_def)
      moreover from none
      have "getGroupMembers ?st' caller g = reply 403 ''You are not a member of this group''"
        by (simp add: getGroupMembers_def)
      ultimately show ?thesis by blast
    qed
    from msgs mems nomsg nomem gone show ?thesis by blast
  qed
  from main cascade show ?thesis by blast
qed

theorem deleteGroup_main_chat_and_cascade_witness:
  "status (fst (deleteGroup demo 1 11)) \<in> {400, 403} \<and> snd (deleteGroup demo 1 11) = demo
   \<and> status (fst (deleteGroup demo 1 10)) = 200
   \<and> messages (snd (deleteGroup demo 1 10)) = []
   \<and> map gm_group (members (snd (deleteGroup demo 1 10))) = [11, 11]
   \<and> getGroupMembers (snd (deleteGroup demo 1 10)) 1 10
       = reply 403 ''You are not a member of this group''
   \<and> payload (fst (getGroupMessages (snd (deleteGroup demo 1 10)) 1 10 (Some 1) (Some 50) 9000)) = NoData"
proof -
  have a: "Group_findById demo 11 = Some \<lparr>g_id = 11, g_name = ''Main Chat'', description = [], createdBy = Some 1,
          isPublic = True, maxMembers = 1000, invitedUsers = []\<rparr>"
    by (simp add: demo_def Group_findById_def findOne_def)
  have b: "status (fst (deleteGroup demo 1 10)) = 200"
    by (simp add: demo_def deleteGroup_def Group_findById_def findOne_def reply_def)
  have c: "filter (\<lambda>m. m_group m \<noteq> 10) (messages demo) = []"
    by (simp add: demo_def)
  have d: "map gm_group (filter (\<lambda>m. gm_group m \<noteq> 10) (members demo)) = [11, 11]"
    by (simp add: demo_def)
  from deleteGroup_main_chat_and_cascade [where st = demo and u = 1 and g = 11] a
  have "status (fst (deleteGroup demo 1 11)) \<in> {400, 403} \<and> snd (deleteGroup demo 1 11) = demo"
    by simp
  moreover from deleteGroup_main_chat_and_cascade [where st = demo and u = 1 and g = 10] b c d
  have "messages (snd (deleteGroup demo 1 10)) = []
   \<and> map gm_group (members (snd (deleteGroup demo 1 10))) = [11, 11]
   \<and> getGroupMembers (snd (deleteGroup demo 1 10)) 1 10
       = reply 403 ''You are not a member of this group''
   \<and> payload (fst (getGroupMessages (snd (deleteGroup demo 1 10)) 1 10 (Some 1) (Some 50) 9000)) = NoData"
    by simp
  ultimately show ?thesis using b by simp
qed

section \<open>The unique index on memberships\<close>

text \<open>
  C10. \<open>GroupMember.create\<close> is refused whenever a row with the same user and group is
  stored, active or not. \<open>removeMember\<close> deletes no row and changes no field but
  \<open>isActive\<close>, and after a successful call the target's row is stored with
  \<open>isActive = false\<close>. So for a user with an inactive row in a group,
  \<open>acceptInvitation\<close> leaves the store as it was: it answers 404 when the group or
  a pending invitation is missing, and when both are there its \<open>GroupMember.create\<close>
  fails and it answers 500.
\<close>

theorem inactive_row_blocks_acceptInvitation:
  "(list_ex (\<lambda>m. gm_user m = u \<and> gm_group m = g) (members st)
      \<longrightarrow> GroupMember_create st u g r now = Inl DuplicateKey)
   \<and> map (\<lambda>m. m\<lparr>isActive := False\<rparr>) (members (snd (removeMember st a g t)))
       = map (\<lambda>m. m\<lparr>isActive := False\<rparr>) (members st)
   \<and> (\<forall>row. status (fst (removeMember st a g t)) = 200
         \<and> find (\<lambda>m. gm_user m = t \<and> gm_group m = g) (members st) = Some row
       \<longrightarrow> find (\<lambda>m. gm_user m = t \<and> gm_group m = g) (members (snd (removeMember st a g t)))
            = Some (row\<lparr>isActive := False\<rparr>))
   \<and> (list_ex (\<lambda>m. gm_user m = u \<and> gm_group m = g \<and> \<not> isActive m) (members st)
      \<longrightarrow> snd (acceptInvitation st u g now) = st
        \<and> status (fst (acceptInvitation st u g now)) \<in> {404, 500}
        \<and> (\<forall>grp. Group_findById st g = Some grp
               \<and> list_ex (\<lambda>i. inv_user i = u \<and> inv_status i = Pending) (invitedUsers grp)
             \<longrightarrow> fst (acceptInvitation st u g now) = reply 500 ''Error accepting invitation''))"
proof (intro conjI impI allI)
  assume "list_ex (\<lambda>m. gm_user m = u \<and> gm_group m = g) (members st)"
  then show "GroupMember_create st u g r now = Inl DuplicateKey"
    by (simp add: GroupMember_create_def)
next
  show "map (\<lambda>m. m\<lparr>isActive := False\<rparr>) (members (snd (removeMember st a g t)))
       = map (\<lambda>m. m\<lparr>isActive := False\<rparr>) (members st)"
    by (simp add: removeMember_def map_findOneAndUpdate split: option.splits)
next
  fix row
  assume "status (fst (removeMember st a g t)) = 200
         \<and> find (\<lambda>m. gm_user m = t \<and> gm_group m = g) (members st) = Some row"
  then have ok: "status (fst (removeMember st a g t)) = 200"
    and row: "find (\<lambda>m. gm_user m = t \<and> gm_group m = g) (members st) = Some row" by simp_all
  from row have "gm_user row = t \<and> gm_group row = g" by (auto simp: find_Some_iff)
  with row have "find (\<lambda>m. gm_user m = t \<and> gm_group m = g)
      (findOneAndUpdate (\<lambda>m. gm_user m = t \<and> gm_group m = g) (\<lambda>m. m\<lparr>isActive := False\<rparr>)
         (members st))
      = Some (row\<lparr>isActive := False\<rparr>)"
    by (intro find_findOneAndUpdate) simp_all
  with ok show "find (\<lambda>m. gm_user m = t \<and> gm_group m = g) (members (snd (removeMember st a g t)))
            = Some (row\<lparr>isActive := False\<rparr>)"
    by (auto simp add: removeMember_def reply_def split: option.splits if_splits)
next
  assume "list_ex (\<lambda>m. gm_user m = u \<and> gm_group m = g \<and> \<not> isActive m) (members st)"
  then have "list_ex (\<lambda>m. gm_user m = u \<and> gm_group m = g) (members st)"
    by (auto simp: list_ex_iff)
  then have dup: "GroupMember_create st u g Member now = Inl DuplicateKey"
    by (simp add: GroupMember_create_def)
  from dup show "snd (acceptInvitation st u g now) = st"
    by (simp add: acceptInvitation_def split: option.splits)
  from dup show "status (fst (acceptInvitation st u g now)) \<in> {404, 500}"
    by (simp add: acceptInvitation_def reply_def split: option.splits)
  fix grp
  assume "Group_findById st g = Some grp
               \<and> list_ex (\<lambda>i. inv_user i = u \<and> inv_status i = Pending) (invitedUsers grp)"
  then have grp: "Group_findById st g = Some grp"
    and "\<exists>i. find (\<lambda>i. inv_user i = u \<and> inv_status i = Pending) (invitedUsers grp) = Some i"
    using findOne_Some_ex [of "\<lambda>i. inv_user i = u \<and> inv_status i = Pending" "invitedUsers grp"]
    by (simp_all add: findOne_def)
  with dup show "fst (acceptInvitation st u g now) = reply 500 ''Error accepting invitation''"
    by (auto simp add: acceptInvitation_def)
qed

theorem inactive_row_blocks_acceptInvitation_witness:
  "GroupMember_create demo 3 10 Member 900 = Inl DuplicateKey
   \<and> map gm_user (members (snd (removeMember demo 1 10 2))) = map gm_user (members demo)
   \<and> find (\<lambda>m. gm_user m = 2 \<and> gm_group m = 10) (members (snd (removeMember demo 1 10 2)))
       = Some \<lparr>gm_user = 2, gm_group = 10, gm_role = Member, joinedAt = 200, isActive = False\<rparr>
   \<and> snd (acceptInvitation demo 3 10 900) = demo
   \<and> fst (acceptInvitation demo 3 10 900) = reply 500 ''Error accepting invitation''"
proof -
  note T = inactive_row_blocks_acceptInvitation [where st = demo and g = 10 and u = 3
      and r = Member and now = 900 and a = 1 and t = 2]
  have ex: "list_ex (\<lambda>m. gm_user m = 3 \<and> gm_group m = 10 \<and> \<not> isActive m) (members demo)"
    "list_ex (\<lambda>m. gm_user m = 3 \<and> gm_group m = 10) (members demo)"
    by (simp_all add: demo_def)
  have ok: "status (fst (removeMember demo 1 10 2)) = 200"
    by (simp add: demo_def removeMember_def findOne_def reply_def)
  have row: "find (\<lambda>m. gm_user m = 2 \<and> gm_group m = 10) (members demo)
      = Some \<lparr>gm_user = 2, gm_group = 10, gm_role = Member, joinedAt = 200, isActive = True\<rparr>"
    by (simp add: demo_def)
  have grp: "Group_findById demo 10 = Some \<lparr>g_id = 10, g_name = ''General'', description = [], createdBy = Some 1,
          isPublic = False, maxMembers = 50,
          invitedUsers = [\<lparr>inv_user = 3, invitedBy = 1, invitedAt = 250, inv_status = Pending\<rparr>]\<rparr>"
    by (simp add: demo_def Group_findById_def findOne_def)
  from T ex have 1: "GroupMember_create demo 3 10 Member 900 = Inl DuplicateKey" by blast
  from T have "map (\<lambda>m. m\<lparr>isActive := False\<rparr>) (members (snd (removeMember demo 1 10 2)))
       = map (\<lambda>m. m\<lparr>isActive := False\<rparr>) (members demo)" by blast
  then have "map gm_user (map (\<lambda>m. m\<lparr>isActive := False\<rparr>) (members (snd (removeMember demo 1 10 2))))
       = map gm_user (map (\<lambda>m. m\<lparr>isActive := False\<rparr>) (members demo))" by simp
  then have 2: "map gm_user (members (snd (removeMember demo 1 10 2))) = map gm_user (members demo)"
    by (simp add: comp_def)
  from T ok row have 3: "find (\<lambda>m. gm_user m = 2 \<and> gm_group m = 10) (members (snd (removeMember demo 1 10 2)))
       = Some (\<lparr>gm_user = 2, gm_group = 10, gm_role = Member, joinedAt = 200, isActive = True\<rparr>\<lparr>isActive := False\<rparr>)"
    by blast
  from T ex have 4: "snd (acceptInvitation demo 3 10 900) = demo" by blast
  from T ex(1) grp have 5: "fst (acceptInvitation demo 3 10 900) = reply 500 ''Error accepting invitation''"
    by simp
  from 1 2 3 4 5 show ?thesis by simp
qed

section \<open>Membership checks of the message handlers\<close>

lemma validateGroupMembership_Inr:
  "list_ex (\<lambda>m. gm_user m = u \<and> gm_group m = g \<and> isActive m) (members st)
   \<Longrightarrow> \<exists>m. validateGroupMembership st u g = Inr m"
  using findOne_Some_ex [of "\<lambda>m. gm_user m = u \<and> gm_group m = g \<and> isActive m" "members st"]
  by (auto simp: validateGroupMembership_def)

lemma validateGroupMembership_Inl:
  "\<not> list_ex (\<lambda>m. gm_user m = u \<and> gm_group m = g \<and> isActive m) (members st)
   \<Longrightarrow> validateGroupMembership st u g = Inl NotMember"
  using findOne_None_iff [of "\<lambda>m. gm_user m = u \<and> gm_group m = g \<and> isActive m" "members st"]
  by (auto simp: validateGroupMembership_def)

section \<open>Message pages\<close>

text \<open>
  C3. For an active member of an existing group, a page number of at least 1 and a
  limit between 1 and 100, \<open>getGroupMessages\<close> answers 200 with the requested page of
  the newest-first listing, reversed. The newest-first listing is a permutation of
  the group's stored messages in descending order of \<open>createdAt\<close>; the returned page
  is in ascending order of \<open>createdAt\<close>; page 1 holds the \<open>limit\<close> most recent
  messages (all of them when there are fewer): every message left out is at most as
  recent as every message returned. The pagination record is
  \<open>currentPage = page\<close>, \<open>totalPages = ceil (n / limit)\<close>, \<open>totalMessages = n\<close>,
  \<open>hasNext = page < ceil (n / limit)\<close>, \<open>hasPrev = page > 1\<close>.
\<close>

theorem getGroupMessages_page:
  assumes page: "1 \<le> page" and limit: "1 \<le> limit" "limit \<le> 100"
    and mem: "list_ex (\<lambda>m. gm_user m = u \<and> gm_group m = g \<and> isActive m) (members st)"
    and grp: "list_ex (\<lambda>x. g_id x = g) (groups st)"
  shows
    "(let stored = filter (\<lambda>m. m_group m = g) (messages st);
          n = int (length stored);
          newest = sort_by newest_first stored;
          msgs = rev (take (nat limit) (drop (nat ((page - 1) * limit)) newest))
      in fst (getGroupMessages st u g (Some page) (Some limit) now) =
           reply_data 200 []
             (MessagePage msgs
                \<lparr>currentPage = page,
                 totalPages = \<lceil>real_of_int n / real_of_int limit\<rceil>,
                 totalMessages = n,
                 hasNext = (page < \<lceil>real_of_int n / real_of_int limit\<rceil>),
                 hasPrev = (1 < page)\<rparr>)
         \<and> mset newest = mset stored
         \<and> sorted_wrt (\<lambda>a b. createdAt b \<le> createdAt a) newest
         \<and> sorted (map createdAt msgs)
         \<and> (page = 1 \<longrightarrow>
              length msgs = min (nat limit) (length stored)
              \<and> mset msgs + mset (drop (nat limit) newest) = mset stored
              \<and> (\<forall>x\<in>set msgs. \<forall>y\<in>set (drop (nat limit) newest). createdAt y \<le> createdAt x)))"
proof -
  define stored where "stored = filter (\<lambda>m. m_group m = g) (messages st)"
  define newest where "newest = sort_by newest_first stored"
  define msgs where "msgs = rev (take (nat limit) (drop (nat ((page - 1) * limit)) newest))"
  from mem obtain m where m: "validateGroupMembership st u g = Inr m"
    using validateGroupMembership_Inr by blast
  from grp obtain gr where gr: "Group_findById st g = Some gr"
    using findOne_Some_ex [of "\<lambda>x. g_id x = g" "groups st"] by (auto simp: Group_findById_def)
  from page limit have dflt: "or_default (Some page) 1 = page" "or_default (Some limit) 50 = limit"
    by (auto simp: or_default_def)
  have resp: "fst (getGroupMessages st u g (Some page) (Some limit) now) =
           reply_data 200 []
             (MessagePage msgs
                \<lparr>currentPage = page,
                 totalPages = \<lceil>real_of_int (int (length stored)) / real_of_int limit\<rceil>,
                 totalMessages = int (length stored),
                 hasNext = (page < \<lceil>real_of_int (int (length stored)) / real_of_int limit\<rceil>),
                 hasPrev = (1 < page)\<rparr>)"
    using page limit m gr
    by (simp add: getGroupMessages_def dflt getMessagesWithPagination_def Let_def
        countDocuments_def ceil_quot_def stored_def newest_def msgs_def)
  have perm: "mset newest = mset stored" by (simp add: newest_def mset_sort_by)
  have srt: "sorted_wrt newest_first newest" by (simp add: newest_def sorted_newest_first)
  then have srt': "sorted_wrt (\<lambda>a b. createdAt b \<le> createdAt a) newest"
    by (simp add: newest_first_def[abs_def])
  from srt have chron: "sorted (map createdAt msgs)"
    unfolding msgs_def by (rule chronological_page)
  have first: "length msgs = min (nat limit) (length stored)
              \<and> mset msgs + mset (drop (nat limit) newest) = mset stored
              \<and> (\<forall>x\<in>set msgs. \<forall>y\<in>set (drop (nat limit) newest). createdAt y \<le> createdAt x)"
    if "page = 1"
  proof -
    from that have ms: "msgs = rev (take (nat limit) newest)" by (simp add: msgs_def)
    have "length msgs = min (nat limit) (length stored)"
      by (simp add: ms newest_def length_sort_by min.commute)
    moreover have "mset msgs + mset (drop (nat limit) newest) = mset newest"
      unfolding ms by (metis append_take_drop_id mset_append mset_rev)
    moreover from srt' have "sorted_wrt (\<lambda>a b. createdAt b \<le> createdAt a)
        (take (nat limit) newest @ drop (nat limit) newest)" by simp
    then have "\<forall>x\<in>set msgs. \<forall>y\<in>set (drop (nat limit) newest). createdAt y \<le> createdAt x"
      unfolding ms sorted_wrt_append by simp
    ultimately show ?thesis using perm by simp
  qed
  from resp perm srt' chron first show ?thesis
    unfolding Let_def stored_def [symmetric] newest_def [symmetric] msgs_def [symmetric]
    by blast
qed

theorem getGroupMessages_page_witness:
  "fst (getGroupMessages demo 2 10 (Some 1) (Some 2) 9000) =
     reply_data 200 []
       (MessagePage
          [\<lparr>m_id = 22, content = ''two'', sender = 1, m_group = 10, messageType = ''text'',
            readBy = [], createdAt = 2000\<rparr>,
           \<lparr>m_id = 23, content = ''three'', sender = 1, m_group = 10, messageType = ''text'',
            readBy = [], createdAt = 3000\<rparr>]
          \<lparr>currentPage = 1, totalPages = 2, totalMessages = 3, hasNext = True, hasPrev = False\<rparr>)"
proof -
  have mem: "list_ex (\<lambda>m. gm_user m = 2 \<and> gm_group m = 10 \<and> isActive m) (members demo)"
    by (simp add: demo_def)
  have grp: "list_ex (\<lambda>x. g_id x = 10) (groups demo)"
    by (simp add: demo_def)
  have stored: "filter (\<lambda>m. m_group m = 10) (messages demo) = messages demo"
    by (simp add: demo_def)
  have newest: "sort_by newest_first (messages demo) = rev (messages demo)"
    by (simp add: demo_def sort_by_def newest_first_def)
  have page: "rev (take 2 (rev (messages demo))) =
          [\<lparr>m_id = 22, content = ''two'', sender = 1, m_group = 10, messageType = ''text'',
            readBy = [], createdAt = 2000\<rparr>,
           \<lparr>m_id = 23, content = ''three'', sender = 1, m_group = 10, messageType = ''text'',
            readBy = [], createdAt = 3000\<rparr>]"
    by (simp add: demo_def numeral_2_eq_2)
  have n: "length (messages demo) = 3" by (simp add: demo_def)
  have ceil: "\<lceil>real_of_int 3 / real_of_int 2\<rceil> = 2" by simp
  from getGroupMessages_page [where st = demo and u = 2 and g = 10 and page = 1 and limit = 2
      and now = 9000, OF _ _ _ mem grp]
  show ?thesis
    unfolding Let_def stored newest
    by (simp add: page n)
qed

section \<open>Unread counts\<close>

lemma countDocuments_filter:
  "(\<And>d. p d \<Longrightarrow> q d) \<Longrightarrow> countDocuments p (filter q docs) = countDocuments p docs"
  by (induction docs) (auto simp: countDocuments_def)

text \<open>
  C5. For an active member \<open>u\<close> of group \<open>g\<close>, \<open>getUnreadMessageCount\<close> answers with the
  number of stored messages of \<open>g\<close> whose sender is not \<open>u\<close> and whose \<open>readBy\<close> has no
  entry of \<open>u\<close>. Messages written by \<open>u\<close> never count: dropping all of them from the
  store, or adding one, leaves the answer as it was.
\<close>

theorem unreadCount_counts_unread_of_others:
  assumes mem: "list_ex (\<lambda>m. gm_user m = u \<and> gm_group m = g \<and> isActive m) (members st)"
  shows "getUnreadMessageCount st u g =
           reply_data 200 []
             (UnreadCount
                (length (filter (\<lambda>m. m_group m = g \<and> sender m \<noteq> u \<and> u \<notin> r_user ` set (readBy m))
                   (messages st)))
                g u)
         \<and> getUnreadMessageCount (st\<lparr>messages := filter (\<lambda>m. sender m \<noteq> u) (messages st)\<rparr>) u g
             = getUnreadMessageCount st u g
         \<and> (\<forall>x. sender x = u \<longrightarrow>
               getUnreadMessageCount (st\<lparr>messages := messages st @ [x]\<rparr>) u g
                 = getUnreadMessageCount st u g)"
proof -
  from mem obtain m where m: "validateGroupMembership st u g = Inr m"
    using validateGroupMembership_Inr by blast
  have same: "validateGroupMembership (st\<lparr>messages := ms\<rparr>) u g = validateGroupMembership st u g" for ms
    by (simp add: validateGroupMembership_def)
  have cond: "(m_group x = g \<and> \<not> list_ex (\<lambda>r. r_user r = u) (readBy x) \<and> sender x \<noteq> u)
      = (m_group x = g \<and> sender x \<noteq> u \<and> u \<notin> r_user ` set (readBy x))" for x
    by (auto simp: list_ex_iff)
  from m have "getUnreadMessageCount st u g =
           reply_data 200 []
             (UnreadCount
                (length (filter (\<lambda>m. m_group m = g \<and> sender m \<noteq> u \<and> u \<notin> r_user ` set (readBy m))
                   (messages st)))
                g u)"
    by (simp add: getUnreadMessageCount_def countDocuments_def cond)
  moreover have "countDocuments
      (\<lambda>m. m_group m = g \<and> \<not> list_ex (\<lambda>r. r_user r = u) (readBy m) \<and> sender m \<noteq> u)
      (filter (\<lambda>m. sender m \<noteq> u) (messages st))
    = countDocuments
      (\<lambda>m. m_group m = g \<and> \<not> list_ex (\<lambda>r. r_user r = u) (readBy m) \<and> sender m \<noteq> u)
      (messages st)"
    by (rule countDocuments_filter) simp
  then have "getUnreadMessageCount (st\<lparr>messages := filter (\<lambda>m. sender m \<noteq> u) (messages st)\<rparr>) u g
             = getUnreadMessageCount st u g"
    using m by (simp add: getUnreadMessageCount_def same)
  moreover have "getUnreadMessageCount (st\<lparr>messages := messages st @ [x]\<rparr>) u g
                 = getUnreadMessageCount st u g" if "sender x = u" for x
    using that m by (simp add: getUnreadMessageCount_def countDocuments_def same)
  ultimately show ?thesis by blast
qed

theorem unreadCount_counts_unread_of_others_witness:
  "payload (getUnreadMessageCount demo 2 10) = UnreadCount 3 10 2
   \<and> payload (getUnreadMessageCount
        (markMessageAsRead (markMessageAsRead demo 21 2 5000) 22 2 5001) 2 10) = UnreadCount 1 10 2"
  using unreadCount_counts_unread_of_others [where st = demo and u = 2 and g = 10]
    unreadCount_counts_unread_of_others
      [where st = "markMessageAsRead (markMessageAsRead demo 21 2 5000) 22 2 5001"
         and u = 2 and g = 10]
  by (simp add: demo_def markMessageAsRead_def addToSet_def reply_data_def)

section \<open>Sending a message\<close>

lemma validateMessageContent_Inl_iff:
  "(\<exists>e. validateMessageContent c = Inl e) \<longleftrightarrow> length (trim c) = 0 \<or> 1000 < length c"
  by (auto simp: validateMessageContent_def trim_def)

lemma sendMessage_catch_validation:
  "validateMessageContent c = Inl e \<Longrightarrow> status (sendMessage_catch e) = 400"
  by (auto simp: validateMessageContent_def reply_def split: if_splits)

text \<open>
  C4 (counterexample). Bob sends a valid message to the id 99, which is no group's.
  The membership check runs before the group is looked up and throws: the answer is
  403, not 404.
\<close>

theorem sendMessage_missing_group_forbidden:
  "Group_findById demo 99 = None
   \<and> validateMessageContent ''hello'' = Inr ''hello''
   \<and> status (fst (sendMessage demo 2 99 ''hello'' None 9000)) = 403
   \<and> status (fst (sendMessage demo 2 99 ''hello'' None 9000)) \<noteq> 404"
  by (simp add: demo_def Group_findById_def findOne_def validateMessageContent_def trim_def
      is_ws_def sendMessage_def validateMessageType_def validTypes_def
      validateGroupMembership_def reply_def)

text \<open>
  C4 (amended). \<open>sendMessage\<close> checks in this order. Content that is empty after
  trimming or longer than 1000 characters, or a message type outside the four valid
  ones, gives 400, whatever the memberships and groups are. Otherwise a caller with no
  active membership row for the group id gives 403, whether or not the group exists.
  Otherwise a missing group gives 404. In these three cases the store is unchanged.
  Otherwise the answer is 201 and one message, with a fresh id, is appended.
\<close>

theorem sendMessage_check_order:
  "(let ty' = (case ty of None \<Rightarrow> ''text'' | Some t \<Rightarrow> t);
        invalid = (length (trim c) = 0 \<or> 1000 < length c
                   \<or> ty' \<notin> {''text'', ''image'', ''file'', ''system''});
        active = list_ex (\<lambda>m. gm_user m = u \<and> gm_group m = g \<and> isActive m) (members st);
        r = sendMessage st u g c ty now
    in (invalid \<longrightarrow> status (fst r) = 400 \<and> snd r = st)
     \<and> (\<not> invalid \<and> \<not> active \<longrightarrow> status (fst r) = 403 \<and> snd r = st)
     \<and> (\<not> invalid \<and> active \<and> Group_findById st g = None \<longrightarrow> status (fst r) = 404 \<and> snd r = st)
     \<and> (\<not> invalid \<and> active \<and> Group_findById st g \<noteq> None \<longrightarrow>
          status (fst r) = 201
          \<and> map m_id (messages (snd r)) = map m_id (messages st) @ [next_id st]))"
proof -
  define ty' where "ty' = (case ty of None \<Rightarrow> ''text'' | Some t \<Rightarrow> t)"
  define r where "r = sendMessage st u g c ty now"
  let ?badc = "length (trim c) = 0 \<or> 1000 < length c"
  let ?badt = "ty' \<notin> {''text'', ''image'', ''file'', ''system''}"
  let ?active = "list_ex (\<lambda>m. gm_user m = u \<and> gm_group m = g \<and> isActive m) (members st)"
  have vt: "validateMessageType ty' = (if ?badt then Inl InvalidType else Inr ty')"
    by (simp add: validateMessageType_def validTypes_def)
  have c1: "status (fst r) = 400 \<and> snd r = st" if "?badc"
  proof -
    from that obtain e where e: "validateMessageContent c = Inl e"
      using validateMessageContent_Inl_iff by blast
    with sendMessage_catch_validation [OF e] show ?thesis
      by (simp add: r_def sendMessage_def)
  qed
  have okc: "validateMessageContent c = Inr (trim c)" if "\<not> ?badc"
    using that by (auto simp: validateMessageContent_def trim_def)
  have c2: "status (fst r) = 400 \<and> snd r = st" if "\<not> ?badc" "?badt"
    using okc [OF that(1)] that(2) vt
    by (simp add: r_def sendMessage_def ty'_def [symmetric] reply_def)
  have c3: "status (fst r) = 403 \<and> snd r = st" if "\<not> ?badc" "\<not> ?badt" "\<not> ?active"
    using okc [OF that(1)] that(2) vt validateGroupMembership_Inl [OF that(3)]
    by (simp add: r_def sendMessage_def ty'_def [symmetric] reply_def)
  have c4: "status (fst r) = 404 \<and> snd r = st"
    if "\<not> ?badc" "\<not> ?badt" "?active" "Group_findById st g = None"
    using okc [OF that(1)] that(2) vt validateGroupMembership_Inr [OF that(3)] that(4)
    by (auto simp add: r_def sendMessage_def ty'_def [symmetric] reply_def)
  have c5: "status (fst r) = 201
          \<and> map m_id (messages (snd r)) = map m_id (messages st) @ [next_id st]"
    if "\<not> ?badc" "\<not> ?badt" "?active" "Group_findById st g \<noteq> None"
    using okc [OF that(1)] that(2) vt validateGroupMembership_Inr [OF that(3)] that(4)
    by (auto simp add: r_def sendMessage_def ty'_def [symmetric] reply_data_def Message_create_def
        markMessageAsRead_def map_findOneAndUpdate Let_def)
  from c1 c2 c3 c4 c5 show ?thesis
    unfolding Let_def ty'_def [symmetric] r_def [symmetric] by auto
qed

theorem sendMessage_check_order_witness:
  "status (fst (sendMessage demo 2 10 ''   '' None 9000)) = 400
   \<and> snd (sendMessage demo 2 10 ''   '' None 9000) = demo
   \<and> status (fst (sendMessage demo 2 10 ''hello'' (Some ''video'') 9000)) = 400
   \<and> status (fst (sendMessage demo 3 10 ''hello'' None 9000)) = 403
   \<and> snd (sendMessage demo 3 10 ''hello'' None 9000) = demo
   \<and> status (fst (sendMessage demo 2 99 ''hello'' None 9000)) = 403
   \<and> status (fst (sendMessage demo 2 10 ''hello'' None 9000)) = 201
   \<and> map m_id (messages (snd (sendMessage demo 2 10 ''hello'' None 9000))) = [21, 22, 23, 100]"
proof -
  have t: "trim ''   '' = []" "trim ''hello'' = ''hello''"
    by (simp_all add: trim_def is_ws_def)
  have m: "list_ex (\<lambda>m. gm_user m = 2 \<and> gm_group m = 10 \<and> isActive m) (members demo)"
    "\<not> list_ex (\<lambda>m. gm_user m = 3 \<and> gm_group m = 10 \<and> isActive m) (members demo)"
    "\<not> list_ex (\<lambda>m. gm_user m = 2 \<and> gm_group m = 99 \<and> isActive m) (members demo)"
    by (simp_all add: demo_def)
  have g: "Group_findById demo 10 \<noteq> None"
    by (simp add: demo_def Group_findById_def findOne_def)
  have i: "map m_id (messages demo) = [21, 22, 23]" "next_id demo = 100"
    by (simp_all add: demo_def)
  from sendMessage_check_order [where st = demo and u = 2 and g = 10 and c = "''   ''"
      and ty = None and now = 9000] t
  have 1: "status (fst (sendMessage demo 2 10 ''   '' None 9000)) = 400
   \<and> snd (sendMessage demo 2 10 ''   '' None 9000) = demo"
    by (simp add: Let_def)
  from sendMessage_check_order [where st = demo and u = 2 and g = 10 and c = "''hello''"
      and ty = "Some ''video''" and now = 9000]
  have 2: "status (fst (sendMessage demo 2 10 ''hello'' (Some ''video'') 9000)) = 400"
    by (simp add: Let_def)
  from sendMessage_check_order [where st = demo and u = 3 and g = 10 and c = "''hello''"
      and ty = None and now = 9000] t m
  have 3: "status (fst (sendMessage demo 3 10 ''hello'' None 9000)) = 403
   \<and> snd (sendMessage demo 3 10 ''hello'' None 9000) = demo"
    by (simp add: Let_def)
  from sendMessage_check_order [where st = demo and u = 2 and g = 99 and c = "''hello''"
      and ty = None and now = 9000] t m
  have 4: "status (fst (sendMessage demo 2 99 ''hello'' None 9000)) = 403"
    by (simp add: Let_def)
  from sendMessage_check_order [where st = demo and u = 2 and g = 10 and c = "''hello''"
      and ty = None and now = 9000] t m g i
  have 5: "status (fst (sendMessage demo 2 10 ''hello'' None 9000)) = 201
   \<and> map m_id (messages (snd (sendMessage demo 2 10 ''hello'' None 9000))) = [21, 22, 23, 100]"
    by (simp add: Let_def)
  from 1 2 3 4 5 show ?thesis by simp
qed

section \<open>Invitations\<close>




section \<open>The Main Chat bootstrap\<close>

lemma findOne_append:
  "findOne q (xs @ ys) = (case findOne q xs of None \<Rightarrow> findOne q ys | Some x \<Rightarrow> Some x)"
  by (induction xs) (auto simp: findOne_def)

lemma findOne_Some_holds: "findOne q docs = Some d \<Longrightarrow> q d \<and> d \<in> set docs"
  by (auto simp: findOne_def find_Some_iff)

text \<open>What getMainChat does once the Main Chat group is at hand.\<close>

lemma getMainChat_found:
  assumes mc: "findOne (\<lambda>x. g_name x = ''Main Chat'') (groups st) = Some mc"
  shows "status (fst (getMainChat st u now)) = 200
     \<and> groups (snd (getMainChat st u now)) = groups st
     \<and> next_id (snd (getMainChat st u now)) = next_id st
     \<and> users (snd (getMainChat st u now)) = users st
     \<and> messages (snd (getMainChat st u now)) = messages st
     \<and> (list_ex (\<lambda>m. gm_user m = u \<and> gm_group m = g_id mc) (members st)
          \<longrightarrow> snd (getMainChat st u now) = st)
     \<and> (\<not> list_ex (\<lambda>m. gm_user m = u \<and> gm_group m = g_id mc) (members st)
          \<longrightarrow> members (snd (getMainChat st u now)) = members st @
                [\<lparr>gm_user = u, gm_group = g_id mc, gm_role = Member, joinedAt = now,
                  isActive = True\<rparr>])"
proof -
  from findOne_Some_holds [OF mc] have "list_ex (\<lambda>x. g_id x = g_id mc) (groups st)"
    by (auto simp: list_ex_iff)
  then obtain g' where g': "findOne (\<lambda>x. g_id x = g_id mc) (groups st) = Some g'"
    using findOne_Some_ex by fastforce
  let ?row = "\<lambda>m. gm_user m = u \<and> gm_group m = g_id mc"
  show ?thesis
  proof (cases "list_ex ?row (members st)")
    case True
    then obtain em where "findOne ?row (members st) = Some em"
      using findOne_Some_ex by fastforce
    with mc g' True show ?thesis
      by (simp add: getMainChat_def getGroupData_def Group_findById_def reply_data_def)
  next
    case False
    then have "findOne ?row (members st) = None" by (simp add: findOne_None_iff)
    with mc g' False show ?thesis
      by (simp add: getMainChat_def getGroupData_def Group_findById_def reply_data_def
          GroupMember_create_def)
  qed
qed

lemma getMainChat_created:
  assumes none: "findOne (\<lambda>x. g_name x = ''Main Chat'') (groups st) = None"
  shows "getMainChat st u now =
     getMainChat (snd (Group_create st ''Main Chat'' ''Welcome to the main chat room!'' True 1000 (Some u))) u now"
    and "findOne (\<lambda>x. g_name x = ''Main Chat'')
           (groups (snd (Group_create st ''Main Chat'' ''Welcome to the main chat room!'' True 1000 (Some u))))
         = Some (fst (Group_create st ''Main Chat'' ''Welcome to the main chat room!'' True 1000 (Some u)))"
proof -
  let ?g = "\<lparr>g_id = next_id st, g_name = ''Main Chat'',
             description = ''Welcome to the main chat room!'', createdBy = Some u,
             isPublic = True, maxMembers = 1000, invitedUsers = []\<rparr>"
  show f: "findOne (\<lambda>x. g_name x = ''Main Chat'')
           (groups (snd (Group_create st ''Main Chat'' ''Welcome to the main chat room!'' True 1000 (Some u))))
         = Some (fst (Group_create st ''Main Chat'' ''Welcome to the main chat room!'' True 1000 (Some u)))"
    using none by (simp add: Group_create_def Let_def findOne_append) (simp add: findOne_def)
  from none f show "getMainChat st u now =
     getMainChat (snd (Group_create st ''Main Chat'' ''Welcome to the main chat room!'' True 1000 (Some u))) u now"
    by (simp add: getMainChat_def)
qed

text \<open>
  C8 (counterexample). Cy's membership row in Main Chat is inactive. \<open>getMainChat\<close>
  finds the row, creates nothing, and answers 200: after the call Cy still has no
  active Main Chat membership.
\<close>

theorem getMainChat_inactive_row_stays_inactive:
  "list_ex (\<lambda>g. g_id g = 11 \<and> g_name g = ''Main Chat'') (groups demo)
   \<and> status (fst (getMainChat demo 3 9000)) = 200
   \<and> \<not> list_ex (\<lambda>m. gm_user m = 3 \<and> gm_group m = 11 \<and> isActive m)
         (members (snd (getMainChat demo 3 9000)))"
  by (simp add: demo_def getMainChat_def findOne_def getGroupData_def Group_findById_def
      reply_data_def)

text \<open>
  C8 (amended). \<open>getMainChat\<close> answers 200, and after it a group named Main Chat is
  stored in which the user has a membership row. A user who had a row in that group,
  active or inactive, keeps it as it was, and no row is added; a user who had none
  gets one new row, with role member and \<open>isActive = true\<close>. A second call leaves the
  store as the first call left it, so it creates no second row.
\<close>

theorem getMainChat_ensures_row:
  "(let st' = snd (getMainChat st u now)
    in status (fst (getMainChat st u now)) = 200
       \<and> (\<exists>mc. findOne (\<lambda>x. g_name x = ''Main Chat'') (groups st') = Some mc
            \<and> list_ex (\<lambda>m. gm_user m = u \<and> gm_group m = g_id mc) (members st')
            \<and> (list_ex (\<lambda>m. gm_user m = u \<and> gm_group m = g_id mc) (members st)
                 \<longrightarrow> members st' = members st)
            \<and> (\<not> list_ex (\<lambda>m. gm_user m = u \<and> gm_group m = g_id mc) (members st)
                 \<longrightarrow> members st' = members st @
                       [\<lparr>gm_user = u, gm_group = g_id mc, gm_role = Member, joinedAt = now,
                         isActive = True\<rparr>]))
       \<and> snd (getMainChat st' u now') = st')"
proof -
  have found: "status (fst (getMainChat s u now)) = 200
       \<and> findOne (\<lambda>x. g_name x = ''Main Chat'') (groups (snd (getMainChat s u now))) = Some mc
       \<and> list_ex (\<lambda>m. gm_user m = u \<and> gm_group m = g_id mc) (members (snd (getMainChat s u now)))
       \<and> (list_ex (\<lambda>m. gm_user m = u \<and> gm_group m = g_id mc) (members s)
             \<longrightarrow> members (snd (getMainChat s u now)) = members s)
       \<and> (\<not> list_ex (\<lambda>m. gm_user m = u \<and> gm_group m = g_id mc) (members s)
             \<longrightarrow> members (snd (getMainChat s u now)) = members s @
                       [\<lparr>gm_user = u, gm_group = g_id mc, gm_role = Member, joinedAt = now,
                         isActive = True\<rparr>])
       \<and> snd (getMainChat (snd (getMainChat s u now)) u now') = snd (getMainChat s u now)"
    if mc: "findOne (\<lambda>x. g_name x = ''Main Chat'') (groups s) = Some mc" for s mc
  proof -
    note F = getMainChat_found [OF mc, of u now]
    let ?s' = "snd (getMainChat s u now)"
    from F mc have mc': "findOne (\<lambda>x. g_name x = ''Main Chat'') (groups ?s') = Some mc" by simp
    have row': "list_ex (\<lambda>m. gm_user m = u \<and> gm_group m = g_id mc) (members ?s')"
      using F by (cases "list_ex (\<lambda>m. gm_user m = u \<and> gm_group m = g_id mc) (members s)") auto
    from getMainChat_found [OF mc', of u now'] row'
    have "snd (getMainChat ?s' u now') = ?s'" by blast
    with F mc' row' show ?thesis by simp
  qed
  show ?thesis
  proof (cases "findOne (\<lambda>x. g_name x = ''Main Chat'') (groups st)")
    case (Some mc)
    from found [OF Some] show ?thesis unfolding Let_def by blast
  next
    case None
    let ?c = "Group_create st ''Main Chat'' ''Welcome to the main chat room!'' True 1000 (Some u)"
    from getMainChat_created [OF None, of u] have eq: "getMainChat st u now = getMainChat (snd ?c) u now"
      and mc: "findOne (\<lambda>x. g_name x = ''Main Chat'') (groups (snd ?c)) = Some (fst ?c)"
      by simp_all
    have mem: "members (snd ?c) = members st" by (simp add: Group_create_def Let_def)
    from found [OF mc] show ?thesis unfolding Let_def eq mem by blast
  qed
qed

theorem getMainChat_ensures_row_witness:
  "status (fst (getMainChat demo 5 9000)) = 200
   \<and> members (snd (getMainChat demo 5 9000)) = members demo @
        [\<lparr>gm_user = 5, gm_group = 11, gm_role = Member, joinedAt = 9000, isActive = True\<rparr>]
   \<and> snd (getMainChat (snd (getMainChat demo 5 9000)) 5 9500) = snd (getMainChat demo 5 9000)
   \<and> members (snd (getMainChat demo 3 9000)) = members demo"
proof -
  have g: "groups (snd (getMainChat demo 5 9000)) = groups demo"
    "groups (snd (getMainChat demo 3 9000)) = groups demo"
    by (simp_all add: demo_def getMainChat_def findOne_def getGroupData_def Group_findById_def
        GroupMember_create_def)
  have mc: "findOne (\<lambda>x. g_name x = ''Main Chat'') (groups demo) =
      Some \<lparr>g_id = 11, g_name = ''Main Chat'', description = [], createdBy = Some 1,
          isPublic = True, maxMembers = 1000, invitedUsers = []\<rparr>"
    by (simp add: demo_def findOne_def)
  have rows: "\<not> list_ex (\<lambda>m. gm_user m = 5 \<and> gm_group m = 11) (members demo)"
    "list_ex (\<lambda>m. gm_user m = 3 \<and> gm_group m = 11) (members demo)"
    by (simp_all add: demo_def)
  from getMainChat_ensures_row [where st = demo and u = 5 and now = 9000 and now' = 9500]
    g mc rows
  have 1: "status (fst (getMainChat demo 5 9000)) = 200
   \<and> members (snd (getMainChat demo 5 9000)) = members demo @
        [\<lparr>gm_user = 5, gm_group = 11, gm_role = Member, joinedAt = 9000, isActive = True\<rparr>]
   \<and> snd (getMainChat (snd (getMainChat demo 5 9000)) 5 9500) = snd (getMainChat demo 5 9000)"
    by (simp add: Let_def)
  from getMainChat_ensures_row [where st = demo and u = 3 and now = 9000 and now' = 9500]
    g mc rows
  have 2: "members (snd (getMainChat demo 3 9000)) = members demo"
    by (simp add: Let_def)
  from 1 2 show ?thesis by simp
qed

end
